theory Spec2Isabelle
  imports Complex_Main "HOL-Library.List_Lexorder" "HOL-Library.Char_ord"
begin

section \<open>Python values and exceptions\<close>

text \<open>
  The exceptions the modelled code raises. The source raises \<^verbatim>\<open>ValueError\<close> with a
  message in most places; each message is a constructor of its own here, so that a theorem
  can tell them apart. \<open>ShapeError\<close> stands for the \<^verbatim>\<open>RuntimeError\<close> of the tensor
  library on operands whose shapes do not fit.
\<close>

datatype error =
    UnknownHead string
  | InvalidAdapterSetup
  | AlreadyMerged
  | InvalidCompositionMode
  | FrozenInstanceError
  | KeyError string
  | TypeError
  | ShapeError
  | FusionExists string
  | InvalidFusionIdentifier string
  | InvalidFusionConfig
  | BatchSizeMismatch
  | TargetOutOfBounds
  | IndexError
  | ZeroDivisionError




text \<open>
  An optional string argument (\<^verbatim>\<open>None\<close> or a \<^verbatim>\<open>str\<close>): its truth value, and
  Python's \<^verbatim>\<open>a or b\<close>, which is \<^verbatim>\<open>a\<close> when \<^verbatim>\<open>a\<close> is true and \<^verbatim>\<open>b\<close> otherwise.
\<close>

fun truthy_name :: "string option \<Rightarrow> bool" where
  "truthy_name None = False"
| "truthy_name (Some s) = (s \<noteq> [])"

definition py_or :: "string option \<Rightarrow> string option \<Rightarrow> string option" where
  "py_or a b = (if truthy_name a then a else b)"

section \<open>Head dispatch (adapter\_heads.py)\<close>

text \<open>
  \<^verbatim>\<open>ModelWithFlexibleHeadsAdaptersMixin\<close>: the head table \<^verbatim>\<open>self.heads\<close> and the active
  head. A registered head is the function its \<^verbatim>\<open>forward\<close> computes from the model
  outputs and the remaining arguments of the call (\<^verbatim>\<open>cls_output\<close>, \<^verbatim>\<open>attention_mask\<close>,
  \<^verbatim>\<open>return_dict\<close> and the keyword arguments, packed as \<open>'k\<close>).
\<close>

record ('o, 'k) heads_model =
  heads :: "string \<rightharpoonup> ('o \<Rightarrow> 'k \<Rightarrow> error + 'o)"
  active_head :: "string option"

definition forward_head ::
  "('o, 'k) heads_model \<Rightarrow> 'o \<Rightarrow> string option \<Rightarrow> 'k \<Rightarrow> error + 'o" where
  "forward_head m all_outputs head_name kw =
     (let head_name = py_or head_name (active_head m) in
      case head_name of
        None \<Rightarrow> Inr all_outputs
      | Some n \<Rightarrow>
          if n = [] then Inr all_outputs
          else (case heads m n of
                  None \<Rightarrow> Inl (UnknownHead n)
                | Some head \<Rightarrow> head all_outputs kw))"

subsection \<open>The question answering head\<close>

text \<open>
  Tensors of numbers are lists: a \<open>(batch, seq)\<close> tensor is the list of its rows, and
  \<^verbatim>\<open>t.size(1)\<close> is the length of a row. Numbers are real numbers, so the model computes
  without rounding; the one value of floating point arithmetic that shows up in this head
  is the \<^verbatim>\<open>nan\<close> of a mean over no element.
\<close>

datatype loss = Loss real | NaN

fun loss_add :: "loss \<Rightarrow> loss \<Rightarrow> loss" where
  "loss_add (Loss a) (Loss b) = Loss (a + b)"
| "loss_add _ _ = NaN"

fun loss_div :: "loss \<Rightarrow> real \<Rightarrow> loss" where
  "loss_div (Loss a) c = (if c = 0 then NaN else Loss (a / c))"
| "loss_div NaN c = NaN"

definition size1 :: "'a list list \<Rightarrow> nat" where
  "size1 t = (case t of [] \<Rightarrow> 0 | row # _ \<Rightarrow> length row)"

text \<open>\<^verbatim>\<open>x.clamp_(lo, hi)\<close> on one element.\<close>

definition clamp :: "int \<Rightarrow> int \<Rightarrow> int \<Rightarrow> int" where
  "clamp lo hi x = min (max x lo) hi"

text \<open>
  \<^verbatim>\<open>torch.nn.CrossEntropyLoss(ignore_index=k)\<close> with the default mean reduction, on an
  input of shape \<open>(N, C)\<close> and a target of shape \<open>(N)\<close>: the targets equal to \<open>k\<close> are
  left out, every other target has to be a class index below \<open>C\<close>, and the loss is the
  mean of \<open>- log_softmax(input[i])[target[i]]\<close> over the targets that are kept.
\<close>

definition nll :: "real list \<Rightarrow> nat \<Rightarrow> real" where
  "nll row t = ln (sum_list (map exp row)) - row ! t"

definition CrossEntropyLoss :: "int \<Rightarrow> real list list \<Rightarrow> int list \<Rightarrow> error + loss" where
  "CrossEntropyLoss ignore_index input target =
     (if length input \<noteq> length target then Inl BatchSizeMismatch
      else if list_ex (\<lambda>(row, t). t \<noteq> ignore_index \<and> (t < 0 \<or> int (length row) \<le> t))
                (zip input target)
      then Inl TargetOutOfBounds
      else
        (let kept = filter (\<lambda>(row, t). t \<noteq> ignore_index) (zip input target) in
         if kept = [] then Inr NaN
         else Inr (Loss (sum_list (map (\<lambda>(row, t). nll row (nat t)) kept) / real (length kept)))))"

text \<open>
  \<^verbatim>\<open>QuestionAnsweringHead.forward\<close>, from the logits its layers computed (shape
  \<open>(batch, seq, 2)\<close>, a start and an end logit for each token) and the two optional
  position tensors of shape \<open>(batch)\<close>. The result is the loss (\<open>None\<close> when a position
  tensor is missing), the start logits and the end logits.
\<close>

definition QuestionAnsweringHead_forward ::
  "(real \<times> real) list list \<Rightarrow> int list option \<Rightarrow> int list option \<Rightarrow>
   error + (loss option \<times> real list list \<times> real list list)" where
  "QuestionAnsweringHead_forward logits start_positions end_positions =
     (let start_logits = map (map fst) logits;
          end_logits = map (map snd) logits
      in case (start_positions, end_positions) of
           (Some sp, Some ep) \<Rightarrow>
             (let ignored_index = int (size1 start_logits);
                  sp = map (clamp 0 ignored_index) sp;
                  ep = map (clamp 0 ignored_index) ep
              in case CrossEntropyLoss ignored_index start_logits sp of
                   Inl e \<Rightarrow> Inl e
                 | Inr start_loss \<Rightarrow>
                     (case CrossEntropyLoss ignored_index end_logits ep of
                        Inl e \<Rightarrow> Inl e
                      | Inr end_loss \<Rightarrow>
                          Inr (Some (loss_div (loss_add start_loss end_loss) 2),
                               start_logits, end_logits)))
         | _ \<Rightarrow> Inr (None, start_logits, end_logits))"

section \<open>Adapter configurations (adapters/configuration.py)\<close>











subsection \<open>The model-wide registry: \<^verbatim>\<open>ModelAdaptersConfig\<close>\<close>









section \<open>LoRA layers (adapters/lora.py)\<close>

subsection \<open>Numbers and tensors\<close>

text \<open>
  The model computes in exact arithmetic. The parameters of an adapter, the inputs and the
  bias hold rational numbers. An element of the wrapped weight, or of a result, is a
  rational number or \<open>NotFinite\<close>, which stands for the \<^verbatim>\<open>inf\<close> and \<^verbatim>\<open>nan\<close> that
  floating point division by zero produces (no exception is raised there). Adding to,
  subtracting from, multiplying and dividing a value that is not finite by a finite number
  gives a value that is not finite.
\<close>

datatype num = Num rat | NotFinite

fun num_add :: "num \<Rightarrow> num \<Rightarrow> num" where
  "num_add (Num a) (Num b) = Num (a + b)"
| "num_add _ _ = NotFinite"

fun num_plus :: "num \<Rightarrow> rat \<Rightarrow> num" where
  "num_plus (Num a) q = Num (a + q)"
| "num_plus NotFinite q = NotFinite"


fun num_times :: "num \<Rightarrow> rat \<Rightarrow> num" where
  "num_times (Num a) q = Num (a * q)"
| "num_times NotFinite q = NotFinite"


text \<open>
  A two-dimensional tensor: the number of columns and the list of rows. A one-dimensional
  tensor is a tensor with one row, which is how broadcasting against a two-dimensional
  tensor treats it.
\<close>

datatype 'a mat = Mat (ncols: nat) (rows_of: "'a list list")

definition nrows :: "'a mat \<Rightarrow> nat" where
  "nrows m = length (rows_of m)"

definition wf_mat :: "'a mat \<Rightarrow> bool" where
  "wf_mat m = list_all (\<lambda>row. length row = ncols m) (rows_of m)"

text \<open>\<^verbatim>\<open>w.T\<close>, \<^verbatim>\<open>a @ b\<close> and \<^verbatim>\<open>a.flatten()\<close>.\<close>

definition mat_T :: "'a mat \<Rightarrow> 'a mat" where
  "mat_T m = Mat (nrows m) (map (\<lambda>j. map (\<lambda>row. row ! j) (rows_of m)) [0..<ncols m])"

definition matmul :: "rat mat \<Rightarrow> rat mat \<Rightarrow> error + rat mat" where
  "matmul a b =
     (if ncols a \<noteq> nrows b then Inl ShapeError
      else Inr (Mat (ncols b)
                 (map (\<lambda>ra. map (\<lambda>cb. sum_list (map2 (*) ra cb)) (rows_of (mat_T b))) (rows_of a))))"

definition flatten :: "'a mat \<Rightarrow> 'a mat" where
  "flatten m = Mat (nrows m * ncols m) [concat (rows_of m)]"

text \<open>
  Broadcasting: two sizes go together when they are equal or one of them is 1; the
  dimension of size 1 is repeated. An elementwise operation on two tensors broadcasts both
  dimensions, or raises when a dimension does not fit.
\<close>

definition broadcast_dim :: "nat \<Rightarrow> nat \<Rightarrow> nat option" where
  "broadcast_dim a b =
     (if a = b then Some a else if a = 1 then Some b else if b = 1 then Some a else None)"

definition expand :: "nat \<Rightarrow> 'a list \<Rightarrow> 'a list" where
  "expand n xs = (if length xs = n then xs else replicate n (hd xs))"

definition elementwise :: "('a \<Rightarrow> 'b \<Rightarrow> 'c) \<Rightarrow> 'a mat \<Rightarrow> 'b mat \<Rightarrow> error + 'c mat" where
  "elementwise f a b =
     (case (broadcast_dim (nrows a) (nrows b), broadcast_dim (ncols a) (ncols b)) of
        (Some n, Some m) \<Rightarrow>
          Inr (Mat m (map2 (\<lambda>ra rb. map2 f (expand m ra) (expand m rb))
                        (expand n (rows_of a)) (expand n (rows_of b))))
      | _ \<Rightarrow> Inl ShapeError)"

text \<open>
  \<^verbatim>\<open>F.linear(x, w, bias)\<close>: \<open>x @ w.T + bias\<close>, for an input of shape \<open>(n, in)\<close>, a
  weight of shape \<open>(out, in)\<close> and an optional bias of shape \<open>(out)\<close>.
\<close>

definition dot :: "rat list \<Rightarrow> num list \<Rightarrow> num" where
  "dot xs ws = foldr (\<lambda>(x, w) acc. num_add (num_times w x) acc) (zip xs ws) (Num 0)"

definition F_linear :: "rat mat \<Rightarrow> num mat \<Rightarrow> rat list option \<Rightarrow> error + num mat" where
  "F_linear x w b =
     (if ncols x \<noteq> ncols w then Inl ShapeError
      else case b of
        None \<Rightarrow> Inr (Mat (nrows w) (map (\<lambda>xr. map (\<lambda>wr. dot xr wr) (rows_of w)) (rows_of x)))
      | Some bs \<Rightarrow>
          if length bs \<noteq> nrows w then Inl ShapeError
          else Inr (Mat (nrows w)
                     (map (\<lambda>xr. map2 (\<lambda>wr bj. num_plus (dot xr wr) bj) (rows_of w) bs) (rows_of x))))"

subsection \<open>The \<^verbatim>\<open>LoRA\<close> module\<close>

text \<open>
  The parameters \<^verbatim>\<open>lora_A\<close>, \<^verbatim>\<open>lora_B\<close> and \<^verbatim>\<open>scaling\<close> exist when \<^verbatim>\<open>r > 0\<close>, and
  \<^verbatim>\<open>lora_B\<close> only without \<^verbatim>\<open>no_decomposition\<close>; the code reads them under those
  conditions only. \<^verbatim>\<open>lora_dropout\<close> is the identity, as it is without dropout and in
  evaluation mode. \<^verbatim>\<open>enable_lora\<close> and \<^verbatim>\<open>lora_ind\<close> are set on the adapters of a
  \<^verbatim>\<open>MergedLinear\<close> layer.
\<close>

record LoRA =
  r :: int
  lora_alpha :: rat
  composition_mode :: string
  no_decomposition :: bool
  lora_A :: "rat mat"
  lora_B :: "rat mat"
  enable_lora :: "bool list"
  lora_ind :: "bool list"

definition scaling :: "LoRA \<Rightarrow> rat" where
  "scaling lora = lora_alpha lora / of_int (r lora)"

definition com :: "LoRA \<Rightarrow> num mat \<Rightarrow> rat mat \<Rightarrow> error + num mat" where
  "com lora weights added =
     (if composition_mode lora = ''add''
      then elementwise (\<lambda>w a. num_plus w (a * scaling lora)) weights added
      else if composition_mode lora = ''scale''
      then elementwise (\<lambda>w a. num_times w (a * scaling lora)) weights added
      else Inl InvalidCompositionMode)"


subsection \<open>\<^verbatim>\<open>LoRALayer\<close> and \<^verbatim>\<open>Linear\<close>\<close>

text \<open>
  \<^verbatim>\<open>self.merged\<close> is \<^verbatim>\<open>False\<close> after construction, the name of the merged adapter
  after \<^verbatim>\<open>merge_lora\<close>, and \<^verbatim>\<open>None\<close> after \<^verbatim>\<open>reset_lora\<close>. The code tests its truth
  value (\<^verbatim>\<open>if self.merged\<close>, \<^verbatim>\<open>not self.merged\<close>); a string is true when it is not
  empty.
\<close>

datatype merged_marker = MFalse | MNone | MName string

fun truthy_marker :: "merged_marker \<Rightarrow> bool" where
  "truthy_marker MFalse = False"
| "truthy_marker MNone = False"
| "truthy_marker (MName n) = (n \<noteq> [])"

record LoRALayer =
  loras :: "string \<rightharpoonup> LoRA"
  merged :: merged_marker
  weight :: "num mat"
  bias :: "rat list option"
  fan_in_fan_out :: bool
  in_features :: nat
  out_features :: nat

text \<open>The local function \<^verbatim>\<open>T\<close> of the methods below.\<close>

definition T :: "LoRALayer \<Rightarrow> 'a mat \<Rightarrow> 'a mat" where
  "T l w = (if fan_in_fan_out l then mat_T w else w)"


text \<open>
  The update \<^verbatim>\<open>delta_w\<close> that \<^verbatim>\<open>Linear.merge_lora\<close> and \<^verbatim>\<open>Linear.reset_lora\<close> both
  compute from the adapter.
\<close>

definition Linear_delta_w :: "LoRALayer \<Rightarrow> LoRA \<Rightarrow> error + rat mat" where
  "Linear_delta_w l lora =
     (if no_decomposition lora then Inr (flatten (lora_A lora))
      else case matmul (lora_B lora) (lora_A lora) of
             Inl e \<Rightarrow> Inl e
           | Inr ba \<Rightarrow> Inr (T l ba))"


definition Linear_merge_lora :: "LoRALayer \<Rightarrow> string \<Rightarrow> error option \<times> LoRALayer" where
  "Linear_merge_lora l name =
     (case loras l name of
        None \<Rightarrow> (None, l)
      | Some lora \<Rightarrow>
          if merged l = MName name then (None, l)
          else if \<not> truthy_marker (merged l) then
            (if r lora > 0 then
               (case Linear_delta_w l lora of
                  Inl e \<Rightarrow> (Some e, l)
                | Inr delta_w \<Rightarrow>
                    (case com lora (weight l) delta_w of
                       Inl e \<Rightarrow> (Some e, l)
                     | Inr w \<Rightarrow> (None, l\<lparr>weight := w, merged := MName name\<rparr>)))
             else (None, l\<lparr>merged := MName name\<rparr>))
          else if merged l \<noteq> MName name then (Some AlreadyMerged, l)
          else (None, l))"

text \<open>
  The active setup that \<^verbatim>\<open>self.get_active_setup(self.loras)\<close> returns is an
  \<^verbatim>\<open>AdapterCompositionBlock\<close> or \<^verbatim>\<open>None\<close>; both are defined outside this file
  (\<^verbatim>\<open>layer.py\<close>, \<^verbatim>\<open>composition.py\<close>), so the returned value is the argument
  \<open>adapter_setup\<close> of \<open>forward\<close>. Of a block the code uses its length and its first
  child, which is an adapter name or a nested block.
\<close>

datatype child = Leaf string | Block "child list"

definition lookup_lora :: "LoRALayer \<Rightarrow> child \<Rightarrow> error + LoRA" where
  "lookup_lora l c =
     (case c of
        Leaf n \<Rightarrow> (case loras l n of None \<Rightarrow> Inl (KeyError n) | Some lora \<Rightarrow> Inr lora)
      | Block cs \<Rightarrow> Inl (KeyError []))"

definition Linear_forward :: "LoRALayer \<Rightarrow> child list option \<Rightarrow> rat mat \<Rightarrow> error + num mat" where
  "Linear_forward l adapter_setup x =
     (if \<not> truthy_marker (merged l) then
        (case adapter_setup of
           Some setup \<Rightarrow>
             if length setup = 1 then
               (case F_linear x (T l (weight l)) (bias l) of
                  Inl e \<Rightarrow> Inl e
                | Inr result \<Rightarrow>
                    (case lookup_lora l (hd setup) of
                       Inl e \<Rightarrow> Inl e
                     | Inr lora \<Rightarrow>
                         if r lora > 0 then
                           (if no_decomposition lora
                            then com lora result (flatten (lora_A lora))
                            else (case matmul x (mat_T (lora_A lora)) of
                                    Inl e \<Rightarrow> Inl e
                                  | Inr xa \<Rightarrow>
                                      (case matmul xa (mat_T (lora_B lora)) of
                                         Inl e \<Rightarrow> Inl e
                                       | Inr delta_w \<Rightarrow> com lora result delta_w)))
                         else Inr result))
             else Inl InvalidAdapterSetup
         | None \<Rightarrow> F_linear x (T l (weight l)) (bias l))
      else F_linear x (T l (weight l)) (bias l))"

subsection \<open>\<^verbatim>\<open>MergedLinear\<close>\<close>

text \<open>
  \<^verbatim>\<open>F.conv1d(inp.unsqueeze(0), w.unsqueeze(-1), groups=g).squeeze(0)\<close>: a convolution with
  a kernel of size 1 over an input of \<open>C_in\<close> channels (the rows of \<open>inp\<close>) and a weight
  of \<open>C_out\<close> rows and \<open>C_in / g\<close> columns. Output channel \<open>ch\<close> belongs to group
  \<open>ch div (C_out / g)\<close> and is the product of row \<open>ch\<close> of the weight with the input
  channels of its group.
\<close>

definition conv1d :: "rat mat \<Rightarrow> rat mat \<Rightarrow> nat \<Rightarrow> error + rat mat" where
  "conv1d inp w groups =
     (if groups = 0 \<or> nrows w mod groups \<noteq> 0 \<or> nrows inp \<noteq> ncols w * groups
      then Inl ShapeError
      else Inr (Mat (ncols inp)
                 (map (\<lambda>(ch, wr).
                         map (\<lambda>col. sum_list (map2 (*) wr
                                (take (ncols w) (drop (ch div (nrows w div groups) * ncols w) col))))
                           (rows_of (mat_T inp)))
                    (enumerate 0 (rows_of w)))))"

text \<open>\<^verbatim>\<open>sum(bs)\<close> and \<^verbatim>\<open>any(bs)\<close> of a list of booleans, and \<^verbatim>\<open>x.reshape(-1, k)\<close>.\<close>

definition count_true :: "bool list \<Rightarrow> nat" where
  "count_true bs = length (filter id bs)"

definition any_true :: "bool list \<Rightarrow> bool" where
  "any_true bs = list_ex id bs"

definition reshape :: "nat \<Rightarrow> 'a mat \<Rightarrow> 'a mat" where
  "reshape k x =
     Mat k (map (\<lambda>i. take k (drop (i * k) (concat (rows_of x)))) [0..<(nrows x * ncols x) div k])"

text \<open>
  One row of \<^verbatim>\<open>result[:, mask] = values\<close>: the positions where the mask is set take the
  values in turn, the others keep the fill value.
\<close>

fun scatter_row :: "bool list \<Rightarrow> 'a list \<Rightarrow> 'a \<Rightarrow> 'a list" where
  "scatter_row [] vs fill = []"
| "scatter_row (True # ind) (v # vs) fill = v # scatter_row ind vs fill"
| "scatter_row (True # ind) [] fill = fill # scatter_row ind [] fill"
| "scatter_row (False # ind) vs fill = fill # scatter_row ind vs fill"

text \<open>A value of size \<open>a\<close> can be assigned to a target of size \<open>b\<close>.\<close>

definition broadcasts_to :: "nat \<Rightarrow> nat \<Rightarrow> bool" where
  "broadcasts_to a b = (a = b \<or> a = 1)"

definition zero_pad :: "LoRALayer \<Rightarrow> rat mat \<Rightarrow> LoRA \<Rightarrow> error + rat mat" where
  "zero_pad l x lora =
     (let fill = (if composition_mode lora = ''add'' then 0 else 1) in
      if out_features l = 0 then Inl ShapeError
      else if length (enable_lora lora) = 0 then Inl ZeroDivisionError
      else
        (let k = out_features l div length (enable_lora lora) * count_true (enable_lora lora) in
         if k = 0 \<or> (nrows x * ncols x) mod k \<noteq> 0 then Inl ShapeError
         else
           (let v = reshape k x;
                cnt = count_true (lora_ind lora)
            in if length (lora_ind lora) \<noteq> out_features l then Inl IndexError
               else if \<not> (broadcasts_to (nrows v) (nrows x) \<and> broadcasts_to k cnt)
               then Inl ShapeError
               else Inr (Mat (out_features l)
                          (map (\<lambda>vr. scatter_row (lora_ind lora) (expand cnt vr) fill)
                             (expand (nrows x) (rows_of v)))))))"

definition MergedLinear_merge_lora :: "LoRALayer \<Rightarrow> string \<Rightarrow> error option \<times> LoRALayer" where
  "MergedLinear_merge_lora l name =
     (case loras l name of
        None \<Rightarrow> (None, l)
      | Some lora \<Rightarrow>
          if merged l = MName name then (None, l)
          else if \<not> truthy_marker (merged l) then
            (if r lora > 0 \<and> any_true (enable_lora lora) then
               (case (if no_decomposition lora then Inr (flatten (lora_A lora))
                      else (case conv1d (lora_A lora) (lora_B lora) (count_true (enable_lora lora)) of
                              Inl e \<Rightarrow> Inl e
                            | Inr dw \<Rightarrow> Inr (T l dw))) of
                  Inl e \<Rightarrow> (Some e, l)
                | Inr delta_w \<Rightarrow>
                    (case zero_pad l delta_w lora of
                       Inl e \<Rightarrow> (Some e, l)
                     | Inr padded \<Rightarrow>
                         (case com lora (weight l) padded of
                            Inl e \<Rightarrow> (Some e, l)
                          | Inr w \<Rightarrow> (None, l\<lparr>weight := w, merged := MName name\<rparr>))))
             else (None, l\<lparr>merged := MName name\<rparr>))
          else if merged l \<noteq> MName name then (Some AlreadyMerged, l)
          else (None, l))"

definition MergedLinear_forward :: "LoRALayer \<Rightarrow> child list option \<Rightarrow> rat mat \<Rightarrow> error + num mat" where
  "MergedLinear_forward l adapter_setup x =
     (if \<not> truthy_marker (merged l) then
        (case adapter_setup of
           Some setup \<Rightarrow>
             if length setup = 1 then
               (case F_linear x (T l (weight l)) (bias l) of
                  Inl e \<Rightarrow> Inl e
                | Inr result \<Rightarrow>
                    (case lookup_lora l (hd setup) of
                       Inl e \<Rightarrow> Inl e
                     | Inr lora \<Rightarrow>
                         if r lora > 0 then
                           (case (if no_decomposition lora then Inr (flatten (lora_A lora))
                                  else (case matmul x (mat_T (lora_A lora)) of
                                          Inl e \<Rightarrow> Inl e
                                        | Inr after_A \<Rightarrow>
                                            (case conv1d (mat_T after_A) (lora_B lora)
                                                    (count_true (enable_lora lora)) of
                                               Inl e \<Rightarrow> Inl e
                                             | Inr after_B \<Rightarrow> Inr (mat_T after_B)))) of
                              Inl e \<Rightarrow> Inl e
                            | Inr delta_w \<Rightarrow>
                                (case zero_pad l delta_w lora of
                                   Inl e \<Rightarrow> Inl e
                                 | Inr padded \<Rightarrow> com lora result padded))
                         else Inr result))
             else Inl InvalidAdapterSetup
         | None \<Rightarrow> F_linear x (T l (weight l)) (bias l))
      else F_linear x (T l (weight l)) (bias l))"

subsection \<open>Shapes\<close>






subsection \<open>A layer to compute with\<close>

text \<open>
  A \<^verbatim>\<open>Linear\<close> layer with two inputs and two outputs, the weight \<open>[[1, 2], [3, 4]]\<close>, no
  bias, and one adapter \<^verbatim>\<open>"a"\<close> of rank 1 with \<open>lora_alpha = 1\<close> and
  \<open>lora_A = [[1, 2]]\<close>; its composition mode and its \<^verbatim>\<open>lora_B\<close> vary.
\<close>

definition example_lora :: "string \<Rightarrow> rat mat \<Rightarrow> LoRA" where
  "example_lora mode B =
     \<lparr>r = 1, lora_alpha = 1, composition_mode = mode, no_decomposition = False,
      lora_A = Mat 2 [[1, 2]], lora_B = B, enable_lora = [], lora_ind = []\<rparr>"


text \<open>
  The same layer after \<^verbatim>\<open>merge_lora("a")\<close> with a second adapter \<^verbatim>\<open>"b"\<close> beside it.
\<close>

definition merged_example_layer :: LoRALayer where
  "merged_example_layer =
     \<lparr>loras = [''a'' \<mapsto> example_lora ''add'' (Mat 1 [[1], [1]]),
               ''b'' \<mapsto> example_lora ''add'' (Mat 1 [[0], [1]])],
      merged = MName ''a'',
      weight = Mat 2 [[Num 2, Num 4], [Num 4, Num 6]], bias = None,
      fan_in_fan_out = False, in_features = 2, out_features = 2\<rparr>"

section \<open>Head dispatch: the fallback and the unknown head\<close>

lemma py_or_None: "py_or None a = a"
  by (simp add: py_or_def)

text \<open>
  C7. \<^verbatim>\<open>forward_head\<close> called with no \<^verbatim>\<open>head_name\<close> while no head is active returns
  the outputs it was given; so does every call whose head name resolves to nothing (the
  empty string counts as no name). A call whose resolved head name \<open>n\<close> is not a key of
  the head table raises the unknown-head \<^verbatim>\<open>ValueError\<close>.
\<close>

theorem forward_head_fallback_and_unknown:
  "(active_head m = None \<longrightarrow> forward_head m outs None kw = Inr outs) \<and>
   (\<not> truthy_name (py_or hn (active_head m)) \<longrightarrow> forward_head m outs hn kw = Inr outs) \<and>
   (py_or hn (active_head m) = Some n \<and> n \<noteq> [] \<and> n \<notin> dom (heads m) \<longrightarrow>
      forward_head m outs hn kw = Inl (UnknownHead n))"
proof (intro conjI impI)
  assume "active_head m = None"
  then show "forward_head m outs None kw = Inr outs"
    by (simp add: forward_head_def py_or_None)
next
  assume "\<not> truthy_name (py_or hn (active_head m))"
  then show "forward_head m outs hn kw = Inr outs"
    by (cases "py_or hn (active_head m)") (simp_all add: forward_head_def)
next
  assume "py_or hn (active_head m) = Some n \<and> n \<noteq> [] \<and> n \<notin> dom (heads m)"
  then show "forward_head m outs hn kw = Inl (UnknownHead n)"
    by (auto simp: forward_head_def domIff)
qed

theorem forward_head_fallback_and_unknown_witness:
  "active_head \<lparr>heads = [''cls'' \<mapsto> (\<lambda>(x::nat) (k::unit). Inr (Suc x))], active_head = None\<rparr> = None \<and>
   forward_head \<lparr>heads = [''cls'' \<mapsto> (\<lambda>(x::nat) (k::unit). Inr (Suc x))], active_head = None\<rparr>
      7 None () = Inr 7 \<and>
   \<not> truthy_name (py_or (Some [])
      (active_head \<lparr>heads = [''cls'' \<mapsto> (\<lambda>(x::nat) (k::unit). Inr (Suc x))], active_head = None\<rparr>)) \<and>
   forward_head \<lparr>heads = [''cls'' \<mapsto> (\<lambda>(x::nat) (k::unit). Inr (Suc x))], active_head = None\<rparr>
      7 (Some []) () = Inr 7 \<and>
   py_or (Some ''qa'')
      (active_head \<lparr>heads = [''cls'' \<mapsto> (\<lambda>(x::nat) (k::unit). Inr (Suc x))], active_head = None\<rparr>)
      = Some ''qa'' \<and>
   ''qa'' \<notin> dom (heads \<lparr>heads = [''cls'' \<mapsto> (\<lambda>(x::nat) (k::unit). Inr (Suc x))], active_head = None\<rparr>) \<and>
   forward_head \<lparr>heads = [''cls'' \<mapsto> (\<lambda>(x::nat) (k::unit). Inr (Suc x))], active_head = None\<rparr>
      7 (Some ''qa'') () = Inl (UnknownHead ''qa'')"
  using forward_head_fallback_and_unknown
    [of "\<lparr>heads = [''cls'' \<mapsto> (\<lambda>(x::nat) (k::unit). Inr (Suc x))], active_head = None\<rparr>"
        7 "()" "Some []"]
    forward_head_fallback_and_unknown
    [of "\<lparr>heads = [''cls'' \<mapsto> (\<lambda>(x::nat) (k::unit). Inr (Suc x))], active_head = None\<rparr>"
        7 "()" "Some ''qa''" "''qa''"]
  by (simp add: py_or_def)

section \<open>Write-once configuration fields\<close>






section \<open>Fusion names in the registry\<close>






section \<open>The question answering head: clamped positions\<close>

lemma clamp_cases:
  "0 \<le> L \<Longrightarrow> clamp 0 L p = (if p < 0 then 0 else if L \<le> p then L else p)"
  by (simp add: clamp_def min_def max_def)

lemma clamp_range: "0 \<le> L \<Longrightarrow> 0 \<le> clamp 0 L p \<and> clamp 0 L p \<le> L"
  by (simp add: clamp_def min_def max_def)

lemma size1_map [simp]: "size1 (map (map f) t) = size1 t"
  by (cases t) (simp_all add: size1_def)

text \<open>
  After clamping, every target is a class index or the ignored index, so the loss function
  has nothing to reject.
\<close>

lemma CrossEntropyLoss_clamped:
  assumes len: "length ps = length rows"
    and rect: "\<forall>row \<in> set rows. length row = L"
  shows "\<exists>l. CrossEntropyLoss (int L) rows (map (clamp 0 (int L)) ps) = Inr l"
proof -
  have "\<not> list_ex (\<lambda>(row, t). t \<noteq> int L \<and> (t < 0 \<or> int (length row) \<le> t))
            (zip rows (map (clamp 0 (int L)) ps))"
  proof -
    have "\<not> (t \<noteq> int L \<and> (t < 0 \<or> int (length row) \<le> t))"
      if "(row, t) \<in> set (zip rows (map (clamp 0 (int L)) ps))" for row t
    proof -
      from that have "row \<in> set rows" and "t \<in> set (map (clamp 0 (int L)) ps)"
        by (auto dest: set_zip_leftD set_zip_rightD)
      then obtain p where "t = clamp 0 (int L) p" and "length row = L"
        using rect by auto
      with clamp_range [of "int L" p] show ?thesis by auto
    qed
    then show ?thesis by (auto simp: list_ex_iff)
  qed
  with len show ?thesis
    by (simp add: CrossEntropyLoss_def Let_def)
qed

lemma CrossEntropyLoss_ignores:
  "CrossEntropyLoss k (row # rows) (k # ts) = CrossEntropyLoss k rows ts"
  by (simp add: CrossEntropyLoss_def)

text \<open>
  C8, as the claim states it, fails for a position below the input: with two tokens, the
  start position \<open>-1\<close> is clamped to \<open>0\<close>, not to the sequence length \<open>2\<close>, and it is
  not ignored: it counts as the label \<open>0\<close> and the loss is \<open>ln 2\<close>. The start position
  \<open>5\<close> on the same input is clamped to \<open>2\<close> and ignored, which leaves no start term
  and a loss of \<^verbatim>\<open>nan\<close>.
\<close>

theorem QuestionAnsweringHead_negative_position_counterexample:
  "size1 [[(0::real, 0::real), (0, 0)]] = 2 \<and>
   clamp 0 2 (- 1) = 0 \<and>
   QuestionAnsweringHead_forward [[(0, 0), (0, 0)]] (Some [- 1]) (Some [0])
     = Inr (Some (Loss (ln 2)), [[0, 0]], [[0, 0]]) \<and>
   clamp 0 2 5 = 2 \<and>
   QuestionAnsweringHead_forward [[(0, 0), (0, 0)]] (Some [5]) (Some [0])
     = Inr (Some NaN, [[0, 0]], [[0, 0]])"
  by (simp add: QuestionAnsweringHead_forward_def CrossEntropyLoss_def size1_def clamp_def nll_def
      Let_def)

text \<open>
  C8, amended. A forward call of the question answering head with both position tensors,
  one position for each row of the logits, never raises. Each position is clamped into
  \<open>0 .. L\<close>, where \<open>L\<close> is the sequence length: a position of \<open>L\<close> or more becomes
  \<open>L\<close>, which is the ignored index of the loss, so the loss leaves it out; a negative
  position becomes \<open>0\<close> and counts as that label. The loss returned is half the sum of
  the start and the end cross entropy of the clamped positions.
\<close>

theorem QuestionAnsweringHead_forward_clamps:
  assumes "length sp = length logits" and "length ep = length logits"
    and "\<forall>row \<in> set logits. length row = size1 logits"
  shows "(\<exists>start_loss end_loss.
           CrossEntropyLoss (int (size1 logits)) (map (map fst) logits)
               (map (clamp 0 (int (size1 logits))) sp) = Inr start_loss \<and>
           CrossEntropyLoss (int (size1 logits)) (map (map snd) logits)
               (map (clamp 0 (int (size1 logits))) ep) = Inr end_loss \<and>
           QuestionAnsweringHead_forward logits (Some sp) (Some ep)
             = Inr (Some (loss_div (loss_add start_loss end_loss) 2),
                    map (map fst) logits, map (map snd) logits)) \<and>
         (\<forall>p. int (size1 logits) \<le> p \<longrightarrow> clamp 0 (int (size1 logits)) p = int (size1 logits)) \<and>
         (\<forall>p. p < 0 \<longrightarrow> clamp 0 (int (size1 logits)) p = 0) \<and>
         (\<forall>row rows ts.
            CrossEntropyLoss (int (size1 logits)) (row # rows) (int (size1 logits) # ts)
              = CrossEntropyLoss (int (size1 logits)) rows ts)"
proof -
  let ?L = "size1 logits"
  have rs: "\<forall>row \<in> set (map (map fst) logits). length row = ?L"
    and re: "\<forall>row \<in> set (map (map snd) logits). length row = ?L"
    using assms(3) by auto
  from CrossEntropyLoss_clamped [OF _ rs, of sp] assms(1) obtain sl where
    sl: "CrossEntropyLoss (int ?L) (map (map fst) logits) (map (clamp 0 (int ?L)) sp) = Inr sl"
    by auto
  from CrossEntropyLoss_clamped [OF _ re, of ep] assms(2) obtain el where
    el: "CrossEntropyLoss (int ?L) (map (map snd) logits) (map (clamp 0 (int ?L)) ep) = Inr el"
    by auto
  have "QuestionAnsweringHead_forward logits (Some sp) (Some ep)
          = Inr (Some (loss_div (loss_add sl el) 2), map (map fst) logits, map (map snd) logits)"
    using sl el by (simp add: QuestionAnsweringHead_forward_def Let_def)
  with sl el have never_raises: "\<exists>start_loss end_loss.
           CrossEntropyLoss (int ?L) (map (map fst) logits) (map (clamp 0 (int ?L)) sp)
             = Inr start_loss \<and>
           CrossEntropyLoss (int ?L) (map (map snd) logits) (map (clamp 0 (int ?L)) ep)
             = Inr end_loss \<and>
           QuestionAnsweringHead_forward logits (Some sp) (Some ep)
             = Inr (Some (loss_div (loss_add start_loss end_loss) 2),
                    map (map fst) logits, map (map snd) logits)"
    by blast
  have above: "\<forall>p. int ?L \<le> p \<longrightarrow> clamp 0 (int ?L) p = int ?L"
    by (simp add: clamp_cases)
  have below: "\<forall>p. p < 0 \<longrightarrow> clamp 0 (int ?L) p = 0"
    by (simp add: clamp_cases)
  have ignored: "\<forall>row rows ts.
      CrossEntropyLoss (int ?L) (row # rows) (int ?L # ts) = CrossEntropyLoss (int ?L) rows ts"
    by (simp add: CrossEntropyLoss_ignores)
  from never_raises above below ignored show ?thesis
    by (intro conjI)
qed

theorem QuestionAnsweringHead_forward_clamps_witness:
  "length [200::int] = length [[(1::real, 0::real), (0, 0)]] \<and>
   length [0::int] = length [[(1::real, 0::real), (0, 0)]] \<and>
   list_all (\<lambda>row. length row = size1 [[(1::real, 0::real), (0, 0)]]) [[(1::real, 0::real), (0, 0)]] \<and>
   int (size1 [[(1::real, 0::real), (0, 0)]]) \<le> 200 \<and>
   clamp 0 (int (size1 [[(1::real, 0::real), (0, 0)]])) 200 = 2 \<and>
   QuestionAnsweringHead_forward [[(1, 0), (0, 0)]] (Some [200]) (Some [0])
     = Inr (Some NaN, [[1, 0]], [[0, 0]])"
proof -
  have h1: "length [200::int] = length [[(1::real, 0::real), (0, 0)]]" by simp
  have h2: "length [0::int] = length [[(1::real, 0::real), (0, 0)]]" by simp
  have h3: "\<forall>row \<in> set [[(1::real, 0::real), (0, 0)]].
              length row = size1 [[(1::real, 0::real), (0, 0)]]"
    by (simp add: size1_def)
  have s: "size1 [[(1::real, 0::real), (0, 0)]] = 2"
    by (simp add: size1_def)
  from QuestionAnsweringHead_forward_clamps [OF h1 h2 h3]
  show ?thesis
    unfolding s
    by (simp add: CrossEntropyLoss_def clamp_def nll_def)
qed

section \<open>Tensors: broadcasting and inverse operations\<close>


lemma length_expand [simp]: "length (expand n xs) = n"
  by (simp add: expand_def)



lemma expand_same [simp]: "length xs = n \<Longrightarrow> expand n xs = xs"
  by (simp add: expand_def)





lemma mat_T_shape [simp]: "nrows (mat_T m) = ncols m" "ncols (mat_T m) = nrows m"
  by (simp_all add: mat_T_def nrows_def)

lemma wf_mat_T [simp]: "wf_mat (mat_T m)"
  by (simp add: mat_T_def wf_mat_def list_all_iff nrows_def)




lemma T_frame [simp]: "T (l\<lparr>weight := w, merged := m\<rparr>) = T l"
  by (rule ext) (simp add: T_def)

lemma Linear_delta_w_frame [simp]:
  "Linear_delta_w (l\<lparr>weight := w, merged := m\<rparr>) lora = Linear_delta_w l lora"
  by (simp add: Linear_delta_w_def split: sum.split)







section \<open>Merging an adapter into the weight and taking it out again\<close>




section \<open>Deleting an adapter\<close>





section \<open>The forward pass of an unmerged layer\<close>

lemma F_linear_error: "F_linear x w b = Inl e \<Longrightarrow> e = ShapeError"
  by (auto simp: F_linear_def split: if_splits option.splits)











section \<open>One merged adapter at a time\<close>

text \<open>
  C4. At an injection point where an adapter \<open>a\<close> is merged (the marker holds its name;
  the name of a module is never empty), \<^verbatim>\<open>merge_lora(b)\<close> for another adapter \<open>b\<close>
  present at that point raises the already-merged \<^verbatim>\<open>ValueError\<close> and leaves the layer,
  and so its weight, as it was, in \<^verbatim>\<open>Linear\<close> and in \<^verbatim>\<open>MergedLinear\<close> alike. A
  \<^verbatim>\<open>merge_lora(b)\<close> of a present adapter that returns normally found either no adapter
  merged or \<open>b\<close> itself.
\<close>

theorem merge_lora_already_merged:
  assumes "merged l = MName a" and "a \<noteq> []" and "b \<noteq> a" and "b \<in> dom (loras l)"
  shows "Linear_merge_lora l b = (Some AlreadyMerged, l) \<and>
         MergedLinear_merge_lora l b = (Some AlreadyMerged, l) \<and>
         (\<forall>l' n. n \<in> dom (loras l') \<and>
             (fst (Linear_merge_lora l' n) = None \<or> fst (MergedLinear_merge_lora l' n) = None) \<longrightarrow>
             \<not> truthy_marker (merged l') \<or> merged l' = MName n)"
proof (intro conjI allI impI)
  from assms obtain lora where "loras l b = Some lora" by auto
  with assms show "Linear_merge_lora l b = (Some AlreadyMerged, l)"
    by (simp add: Linear_merge_lora_def)
  from \<open>loras l b = Some lora\<close> assms show "MergedLinear_merge_lora l b = (Some AlreadyMerged, l)"
    by (simp add: MergedLinear_merge_lora_def)
next
  fix l' n
  assume h: "n \<in> dom (loras l') \<and>
     (fst (Linear_merge_lora l' n) = None \<or> fst (MergedLinear_merge_lora l' n) = None)"
  then obtain lora where p: "loras l' n = Some lora" by auto
  show "\<not> truthy_marker (merged l') \<or> merged l' = MName n"
  proof (rule ccontr)
    assume "\<not> (\<not> truthy_marker (merged l') \<or> merged l' = MName n)"
    then have "truthy_marker (merged l')" and "merged l' \<noteq> MName n" by simp_all
    with p have "Linear_merge_lora l' n = (Some AlreadyMerged, l')"
      and "MergedLinear_merge_lora l' n = (Some AlreadyMerged, l')"
      by (simp_all add: Linear_merge_lora_def MergedLinear_merge_lora_def)
    with h show False by simp
  qed
qed

theorem merge_lora_already_merged_witness:
  "merged merged_example_layer = MName ''a'' \<and> ''a'' \<noteq> [] \<and> ''b'' \<noteq> ''a'' \<and>
   ''b'' \<in> dom (loras merged_example_layer) \<and>
   Linear_merge_lora merged_example_layer ''b'' = (Some AlreadyMerged, merged_example_layer) \<and>
   MergedLinear_merge_lora merged_example_layer ''b'' = (Some AlreadyMerged, merged_example_layer) \<and>
   weight (snd (Linear_merge_lora merged_example_layer ''b''))
     = Mat 2 [[Num 2, Num 4], [Num 4, Num 6]]"
proof -
  have h1: "merged merged_example_layer = MName ''a''"
    and h4: "''b'' \<in> dom (loras merged_example_layer)"
    and w: "weight merged_example_layer = Mat 2 [[Num 2, Num 4], [Num 4, Num 6]]"
    by (simp_all add: merged_example_layer_def)
  have h2: "''a'' \<noteq> []" and h3: "''b'' \<noteq> ''a''" by simp_all
  from merge_lora_already_merged [OF h1 h2 h3 h4] h1 h4 w show ?thesis
    by simp
qed

section \<open>The forward pass of a merged layer\<close>

text \<open>
  C10. While an adapter is merged (the marker holds a name), the forward pass of a
  \<^verbatim>\<open>Linear\<close> and of a \<^verbatim>\<open>MergedLinear\<close> layer is \<^verbatim>\<open>F.linear(x, T(self.weight), self.bias)\<close>
  on the weight as merged, where \<^verbatim>\<open>T\<close> transposes a weight stored as \<open>(in, out)\<close>. The
  active setup is not looked at: the result is the same for every setup and for every
  adapter table, and it is never the invalid-setup \<^verbatim>\<open>ValueError\<close>.
\<close>

theorem forward_while_merged:
  assumes "truthy_marker (merged l)"
  shows "Linear_forward l adapter_setup x = F_linear x (T l (weight l)) (bias l) \<and>
         MergedLinear_forward l adapter_setup x = F_linear x (T l (weight l)) (bias l) \<and>
         (\<not> fan_in_fan_out l \<longrightarrow>
            Linear_forward l adapter_setup x = F_linear x (weight l) (bias l) \<and>
            MergedLinear_forward l adapter_setup x = F_linear x (weight l) (bias l)) \<and>
         Linear_forward l adapter_setup x \<noteq> Inl InvalidAdapterSetup \<and>
         MergedLinear_forward l adapter_setup x \<noteq> Inl InvalidAdapterSetup \<and>
         (\<forall>ls. Linear_forward (l\<lparr>loras := ls\<rparr>) adapter_setup x = Linear_forward l adapter_setup x \<and>
               MergedLinear_forward (l\<lparr>loras := ls\<rparr>) adapter_setup x
                 = MergedLinear_forward l adapter_setup x)"
proof -
  have lin: "Linear_forward l' s x = F_linear x (T l' (weight l')) (bias l')"
    and mer: "MergedLinear_forward l' s x = F_linear x (T l' (weight l')) (bias l')"
    if "truthy_marker (merged l')" for l' s
    using that by (simp_all add: Linear_forward_def MergedLinear_forward_def)
  have no_err: "F_linear x (T l (weight l)) (bias l) \<noteq> Inl InvalidAdapterSetup"
    by (auto dest: F_linear_error)
  have frame: "T (l\<lparr>loras := ls\<rparr>) (weight l) = T l (weight l)" for ls
    by (simp add: T_def)
  have plain: "T l (weight l) = weight l" if "\<not> fan_in_fan_out l"
    using that by (simp add: T_def)
  from assms have "truthy_marker (merged (l\<lparr>loras := ls\<rparr>))" for ls by simp
  then have "Linear_forward (l\<lparr>loras := ls\<rparr>) adapter_setup x = Linear_forward l adapter_setup x"
    and "MergedLinear_forward (l\<lparr>loras := ls\<rparr>) adapter_setup x
           = MergedLinear_forward l adapter_setup x" for ls
    using lin [of "l\<lparr>loras := ls\<rparr>"] mer [of "l\<lparr>loras := ls\<rparr>"] lin [OF assms] mer [OF assms]
    by (simp_all add: frame)
  with lin [OF assms] mer [OF assms] no_err plain show ?thesis
    by simp
qed

theorem forward_while_merged_witness:
  "truthy_marker (merged merged_example_layer) \<and>
   Linear_forward merged_example_layer (Some [Leaf ''a'', Leaf ''b'']) (Mat 2 [[1, 0]])
     = Inr (Mat 2 [[Num 2, Num 4]]) \<and>
   MergedLinear_forward merged_example_layer (Some [Leaf ''a'', Leaf ''b'']) (Mat 2 [[1, 0]])
     = Inr (Mat 2 [[Num 2, Num 4]]) \<and>
   F_linear (Mat 2 [[1, 0]]) (weight merged_example_layer) (bias merged_example_layer)
     = Inr (Mat 2 [[Num 2, Num 4]])"
proof -
  have h: "truthy_marker (merged merged_example_layer)"
    and nf: "\<not> fan_in_fan_out merged_example_layer"
    by (simp_all add: merged_example_layer_def)
  have v: "F_linear (Mat 2 [[1, 0]]) (weight merged_example_layer) (bias merged_example_layer)
     = Inr (Mat 2 [[Num 2, Num 4]])"
    by (simp add: merged_example_layer_def F_linear_def dot_def nrows_def)
  from forward_while_merged [OF h, of "Some [Leaf ''a'', Leaf ''b'']" "Mat 2 [[1, 0]]"] nf v h
  show ?thesis by (simp add: T_def)
qed

end
